theory Spec2Isabelle
  imports Complex_Main "HOL-Library.Sublist"
begin

section \<open>Decimal amounts and Python errors\<close>

text \<open>
  The invoice engine computes with Python's \<^verbatim>\<open>decimal.Decimal\<close>.  Every amount
  that occurs is a finite decimal fraction, so a Decimal is modelled by the rational number
  it denotes.  Addition, subtraction, multiplication and the divisions by 2 and by 100 are
  exact on such values; the one division that is not (\<^verbatim>\<open>total_amount / divisor\<close> in
  \<^verbatim>\<open>calculate_reverse_gst\<close>) is modelled by the exact quotient.  The context
  precision of 28 significant digits and the special values NaN and Infinity are outside
  the model.

  \<^verbatim>\<open>x.quantize(Decimal('0.01'), rounding=ROUND_HALF_UP)\<close> rounds to two decimal
  places, ties away from zero.
\<close>

type_synonym decimal = rat

definition quantize :: "decimal \<Rightarrow> decimal" where
  "quantize x =
     (if 0 \<le> x then of_int \<lfloor>x * 100 + 1 / 2\<rfloor> / 100
      else - (of_int \<lfloor>- x * 100 + 1 / 2\<rfloor> / 100))"

text \<open>
  Exceptions of the source, as values.  \<^verbatim>\<open>ValueError\<close> carries its message.
  Dividing a Decimal by zero raises \<^verbatim>\<open>DivisionByZero\<close>, and zero by zero
  \<^verbatim>\<open>InvalidOperation\<close>.
\<close>

datatype error = ValueError string | IndexError | AttributeError
  | DivisionByZero | InvalidOperation

section \<open>Python strings, lists and integers\<close>

text \<open>
  A Python \<^verbatim>\<open>str\<close> is modelled as a list of characters and is taken to be ASCII:
  the classification and case functions below are Python's on code points below 128.
  \<^verbatim>\<open>str.isspace\<close> holds of tab, line feed, vertical tab, form feed, carriage return,
  the four separators 0x1C to 0x1F and the space.
\<close>

definition py_isspace :: "char \<Rightarrow> bool" where
  "py_isspace c \<longleftrightarrow>
     c \<in> set [CHR 0x09, CHR 0x0A, CHR 0x0B, CHR 0x0C, CHR 0x0D,
              CHR 0x1C, CHR 0x1D, CHR 0x1E, CHR 0x1F, CHR '' '']"



definition char_upper :: "char \<Rightarrow> char" where
  "char_upper c =
     (case map_of (zip ''abcdefghijklmnopqrstuvwxyz'' ''ABCDEFGHIJKLMNOPQRSTUVWXYZ'') c of
        Some u \<Rightarrow> u | None \<Rightarrow> c)"


text \<open>\<^verbatim>\<open>s.upper()\<close>, \<^verbatim>\<open>s.lower()\<close>, \<^verbatim>\<open>s.strip()\<close>, \<^verbatim>\<open>s.replace(" ", "")\<close>.\<close>

definition upper :: "string \<Rightarrow> string" where
  "upper s = map char_upper s"


definition strip :: "string \<Rightarrow> string" where
  "strip s = rev (dropWhile py_isspace (rev (dropWhile py_isspace s)))"






text \<open>\<^verbatim>\<open>xs[i]\<close>: an index below zero counts from the end, one out of range raises.\<close>

definition py_index :: "'a list \<Rightarrow> int \<Rightarrow> error + 'a" where
  "py_index xs i =
     (if 0 \<le> i \<and> i < int (length xs) then Inr (xs ! nat i)
      else if - int (length xs) \<le> i \<and> i < 0 then Inr (xs ! nat (int (length xs) + i))
      else Inl IndexError)"

text \<open>Sequencing of computations that may raise.\<close>

definition bind_err :: "error + 'a \<Rightarrow> ('a \<Rightarrow> error + 'b) \<Rightarrow> error + 'b" where
  "bind_err m f = (case m of Inl e \<Rightarrow> Inl e | Inr x \<Rightarrow> f x)"

text \<open>\<^verbatim>\<open>int(x)\<close> on a Decimal truncates towards zero.\<close>

definition py_int :: "decimal \<Rightarrow> int" where
  "py_int x = (if 0 \<le> x then \<lfloor>x\<rfloor> else - \<lfloor>- x\<rfloor>)"

section \<open>GSTCalculator (services/gst\_calculator.py)\<close>






section \<open>HSNValidator (services/hsn\_validator.py)\<close>











section \<open>Company and Customer (models/company.py, models/customer.py)\<close>

text \<open>The two classes use the same field names; here each field carries the name of its
  class in front.\<close>

record Company =
  company_name :: string
  company_address :: string
  company_city :: string
  company_state :: string
  company_pincode :: string
  company_country :: string
  company_gstin :: "string option"
  company_pan :: "string option"
  company_phone :: "string option"
  company_email :: "string option"
  company_website :: "string option"
  company_bank_name :: "string option"
  company_bank_account :: "string option"
  company_ifsc_code :: "string option"

record Customer =
  customer_name :: string
  customer_address :: string
  customer_city :: string
  customer_state :: string
  customer_pincode :: string
  customer_country :: string
  customer_gstin :: "string option"
  customer_phone :: "string option"
  customer_email :: "string option"

text \<open>\<^verbatim>\<open>is_gst_registered\<close>, the same method in both classes.\<close>

definition is_gst_registered :: "string option \<Rightarrow> bool" where
  "is_gst_registered gstin = (case gstin of None \<Rightarrow> False | Some g \<Rightarrow> length g = 15)"

section \<open>InvoiceItem (models/invoice.py)\<close>

record InvoiceItem =
  description :: string
  hsn_code :: string
  quantity :: decimal
  unit_price :: decimal
  unit :: string
  gst_rate :: decimal
  discount_percentage :: decimal
  discount_amount :: decimal

text \<open>Construction: the dataclass initialiser followed by \<^verbatim>\<open>__post_init__\<close>.\<close>

definition InvoiceItem_init ::
  "string \<Rightarrow> string \<Rightarrow> decimal \<Rightarrow> decimal \<Rightarrow> string \<Rightarrow> decimal \<Rightarrow> decimal \<Rightarrow> decimal
     \<Rightarrow> error + InvoiceItem" where
  "InvoiceItem_init d h q p u r dp da =
     (if q \<le> 0 then Inl (ValueError ''Quantity must be greater than 0'')
      else if p < 0 then Inl (ValueError ''Unit price cannot be negative'')
      else if r < 0 \<or> r > 100 then Inl (ValueError ''GST rate must be between 0 and 100'')
      else Inr \<lparr> description = d, hsn_code = h, quantity = q, unit_price = p, unit = u,
                 gst_rate = r, discount_percentage = dp, discount_amount = da \<rparr>)"

definition gross_amount :: "InvoiceItem \<Rightarrow> decimal" where
  "gross_amount it = quantize (quantity it * unit_price it)"

definition total_discount :: "InvoiceItem \<Rightarrow> decimal" where
  "total_discount it =
     (let percentage_discount = quantize (gross_amount it * discount_percentage it / 100)
      in quantize (percentage_discount + discount_amount it))"

definition taxable_amount :: "InvoiceItem \<Rightarrow> decimal" where
  "taxable_amount it = quantize (gross_amount it - total_discount it)"

definition cgst_amount :: "InvoiceItem \<Rightarrow> decimal" where
  "cgst_amount it =
     (let cgst_rate = gst_rate it / 2 in quantize (taxable_amount it * cgst_rate / 100))"

definition sgst_amount :: "InvoiceItem \<Rightarrow> decimal" where
  "sgst_amount it =
     (let sgst_rate = gst_rate it / 2 in quantize (taxable_amount it * sgst_rate / 100))"

definition igst_amount :: "InvoiceItem \<Rightarrow> decimal" where
  "igst_amount it = quantize (taxable_amount it * gst_rate it / 100)"

definition total_tax_amount :: "InvoiceItem \<Rightarrow> decimal" where
  "total_tax_amount it = quantize (cgst_amount it + sgst_amount it)"

definition total_amount :: "InvoiceItem \<Rightarrow> decimal" where
  "total_amount it = quantize (taxable_amount it + total_tax_amount it)"

section \<open>Invoice (models/invoice.py)\<close>

text \<open>
  A date is a triple of year, month and day.  The field \<^verbatim>\<open>notes\<close> is written
  \<open>invoice_notes\<close>, and the property \<^verbatim>\<open>total_tax_amount\<close> of an invoice
  \<open>invoice_total_tax_amount\<close>, the plain name being that of the line item's property.
\<close>

type_synonym date = "nat \<times> nat \<times> nat"

record Invoice =
  company :: Company
  customer :: Customer
  items :: "InvoiceItem list"
  invoice_number :: string
  invoice_date :: date
  due_date :: "date option"
  place_of_supply :: string
  reverse_charge :: bool
  invoice_notes :: string
  terms_and_conditions :: string

text \<open>Truth value of an \<^verbatim>\<open>Optional[str]\<close>: \<^verbatim>\<open>None\<close> and the empty string are false.\<close>

definition truthy :: "string option \<Rightarrow> bool" where
  "truthy g = (case g of None \<Rightarrow> False | Some s \<Rightarrow> s \<noteq> [])"

definition state_mapping :: "(string \<times> string) list" where
  "state_mapping =
     [(''ODISHA'', ''ODISHA''),
      (''ORISSA'', ''ODISHA''),
      (''WEST BENGAL'', ''WESTBENGAL''),
      (''WESTBENGAL'', ''WESTBENGAL''),
      (''TAMIL NADU'', ''TAMILNADU''),
      (''TAMILNADU'', ''TAMILNADU''),
      (''UTTAR PRADESH'', ''UTTARPRADESH''),
      (''UTTARPRADESH'', ''UTTARPRADESH''),
      (''MADHYA PRADESH'', ''MADHYAPRADESH''),
      (''MADHYAPRADESH'', ''MADHYAPRADESH''),
      (''HIMACHAL PRADESH'', ''HIMACHALPRADESH''),
      (''HIMACHALPRADESH'', ''HIMACHALPRADESH''),
      (''ANDHRA PRADESH'', ''ANDHRAPRADESH''),
      (''ANDHRAPRADESH'', ''ANDHRAPRADESH''),
      (''JAMMU AND KASHMIR'', ''JAMMUKASHMIR''),
      (''JAMMUKASHMIR'', ''JAMMUKASHMIR''),
      (''J&K'', ''JAMMUKASHMIR'')]"

text \<open>\<^verbatim>\<open>d.get(k, default)\<close> on a dictionary written as its list of items.\<close>

definition dict_get :: "('k \<times> 'v) list \<Rightarrow> 'k \<Rightarrow> 'v \<Rightarrow> 'v" where
  "dict_get d k dflt = (case map_of d k of None \<Rightarrow> dflt | Some v \<Rightarrow> v)"

definition is_interstate :: "Invoice \<Rightarrow> bool" where
  "is_interstate invoice =
     (if truthy (company_gstin (company invoice)) \<and> truthy (customer_gstin (customer invoice)) then
        let company_state_code = take 2 (case company_gstin (company invoice) of Some g \<Rightarrow> g | None \<Rightarrow> []);
            customer_state_code = take 2 (case customer_gstin (customer invoice) of Some g \<Rightarrow> g | None \<Rightarrow> [])
        in company_state_code \<noteq> customer_state_code
      else
        let company_state = upper (strip (company_state (company invoice)));
            customer_state = upper (strip (customer_state (customer invoice)));
            company_state_normalized = dict_get state_mapping company_state company_state;
            customer_state_normalized = dict_get state_mapping customer_state customer_state
        in company_state_normalized \<noteq> customer_state_normalized)"

text \<open>
  \<^verbatim>\<open>sum(...)\<close> starts from the integer 0, so over no items it returns an \<^verbatim>\<open>int\<close> and
  over at least one item a Decimal.  The difference shows in \<open>total_invoice_amount\<close>,
  which calls \<^verbatim>\<open>quantize\<close>, a method that \<^verbatim>\<open>int\<close> does not have.
\<close>

datatype pynum = PyInt int | PyDecimal decimal

fun py_add :: "pynum \<Rightarrow> pynum \<Rightarrow> pynum" where
  "py_add (PyInt a) (PyInt b) = PyInt (a + b)"
| "py_add (PyInt a) (PyDecimal y) = PyDecimal (of_int a + y)"
| "py_add (PyDecimal x) (PyInt b) = PyDecimal (x + of_int b)"
| "py_add (PyDecimal x) (PyDecimal y) = PyDecimal (x + y)"

definition py_sum :: "decimal list \<Rightarrow> pynum" where
  "py_sum xs = foldl py_add (PyInt 0) (map PyDecimal xs)"

definition total_gross_amount :: "Invoice \<Rightarrow> pynum" where
  "total_gross_amount invoice = py_sum (map gross_amount (items invoice))"

definition total_discount_amount :: "Invoice \<Rightarrow> pynum" where
  "total_discount_amount invoice = py_sum (map total_discount (items invoice))"

definition total_taxable_amount :: "Invoice \<Rightarrow> pynum" where
  "total_taxable_amount invoice = py_sum (map taxable_amount (items invoice))"

definition total_cgst_amount :: "Invoice \<Rightarrow> pynum" where
  "total_cgst_amount invoice =
     (if is_interstate invoice then PyDecimal 0 else py_sum (map cgst_amount (items invoice)))"

definition total_sgst_amount :: "Invoice \<Rightarrow> pynum" where
  "total_sgst_amount invoice =
     (if is_interstate invoice then PyDecimal 0 else py_sum (map sgst_amount (items invoice)))"

definition total_igst_amount :: "Invoice \<Rightarrow> pynum" where
  "total_igst_amount invoice =
     (if \<not> is_interstate invoice then PyDecimal 0 else py_sum (map igst_amount (items invoice)))"

definition invoice_total_tax_amount :: "Invoice \<Rightarrow> pynum" where
  "invoice_total_tax_amount invoice =
     (if is_interstate invoice then total_igst_amount invoice
      else py_add (total_cgst_amount invoice) (total_sgst_amount invoice))"

definition total_invoice_amount :: "Invoice \<Rightarrow> error + decimal" where
  "total_invoice_amount invoice =
     (case py_add (total_taxable_amount invoice) (invoice_total_tax_amount invoice) of
        PyInt n \<Rightarrow> Inl AttributeError
      | PyDecimal x \<Rightarrow> Inr (quantize x))"

subsection \<open>Amount in words\<close>

definition ones :: "string list" where
  "ones = ['''', ''One'', ''Two'', ''Three'', ''Four'', ''Five'', ''Six'', ''Seven'',
           ''Eight'', ''Nine'']"

definition teens :: "string list" where
  "teens = [''Ten'', ''Eleven'', ''Twelve'', ''Thirteen'', ''Fourteen'', ''Fifteen'',
            ''Sixteen'', ''Seventeen'', ''Eighteen'', ''Nineteen'']"

definition tens :: "string list" where
  "tens = ['''', '''', ''Twenty'', ''Thirty'', ''Forty'', ''Fifty'', ''Sixty'', ''Seventy'',
           ''Eighty'', ''Ninety'']"

text \<open>
  \<open>convert_hundreds\<close>: the statements of the source in their order; the pair carried
  along is (\<open>result\<close>, \<open>num\<close>).
\<close>

definition convert_hundreds :: "int \<Rightarrow> error + string" where
  "convert_hundreds num0 =
     bind_err
       (if num0 \<ge> 100
        then bind_err (py_index ones (num0 div 100))
               (\<lambda>w. Inr (w @ '' Hundred '', num0 mod 100))
        else Inr ('''', num0))
       (\<lambda>(result, num).
          if num \<ge> 20 then
            bind_err (py_index tens (num div 10))
              (\<lambda>w. let result = result @ w @ '' ''; num = num mod 10 in
                    if num > 0
                    then bind_err (py_index ones num) (\<lambda>w. Inr (result @ w @ '' ''))
                    else Inr result)
          else if num \<ge> 10 then
            bind_err (py_index teens (num - 10)) (\<lambda>w. Inr (result @ w @ '' ''))
          else if num > 0 then
            bind_err (py_index ones num) (\<lambda>w. Inr (result @ w @ '' ''))
          else Inr result)"

definition amount_to_words :: "decimal \<Rightarrow> error + string" where
  "amount_to_words amount =
     (if amount = 0 then Inr ''Zero Rupees Only''
      else
        let rupees = py_int amount;
            paise = py_int ((amount - of_int rupees) * 100);
            result = []
        in
        bind_err
          (if rupees \<ge> 10000000
           then bind_err (convert_hundreds (rupees div 10000000))
                  (\<lambda>w. Inr (result @ w @ ''Crore '', rupees mod 10000000))
           else Inr (result, rupees))
        (\<lambda>(result, rupees).
        bind_err
          (if rupees \<ge> 100000
           then bind_err (convert_hundreds (rupees div 100000))
                  (\<lambda>w. Inr (result @ w @ ''Lakh '', rupees mod 100000))
           else Inr (result, rupees))
        (\<lambda>(result, rupees).
        bind_err
          (if rupees \<ge> 1000
           then bind_err (convert_hundreds (rupees div 1000))
                  (\<lambda>w. Inr (result @ w @ ''Thousand '', rupees mod 1000))
           else Inr (result, rupees))
        (\<lambda>(result, rupees).
        bind_err
          (if rupees > 0
           then bind_err (convert_hundreds rupees) (\<lambda>w. Inr (result @ w))
           else Inr result)
        (\<lambda>result.
        let result = result @ ''Rupees'' in
        bind_err
          (if paise > 0
           then bind_err (convert_hundreds paise)
                  (\<lambda>w. Inr (result @ '' and '' @ w @ ''Paise''))
           else Inr result)
        (\<lambda>result. Inr (strip result @ '' Only'')))))))"

definition total_amount_in_words :: "Invoice \<Rightarrow> error + string" where
  "total_amount_in_words invoice = bind_err (total_invoice_amount invoice) amount_to_words"

section \<open>Reference formulations\<close>

text \<open>
  The definitions of this section are not code of the repository.  They state, in closed
  form and by position, what the functions above are shown to compute, and fix the
  parties and invoices used as concrete instances.
\<close>

text \<open>The normal form of a party's state name: trimmed, upper-cased, and sent through
  the alias table.\<close>

definition normalize_state :: "string \<Rightarrow> string" where
  "normalize_state s = dict_get state_mapping (upper (strip s)) (upper (strip s))"











text \<open>A seller, a buyer and an invoice with the given state, tax identifier and items;
  the other fields are fixed.\<close>

definition example_company :: "string \<Rightarrow> string option \<Rightarrow> Company" where
  "example_company st g =
     \<lparr> company_name = ''Seller Ltd'', company_address = ''1 Main Road'',
       company_city = ''City'', company_state = st, company_pincode = ''400001'',
       company_country = ''India'', company_gstin = g, company_pan = None,
       company_phone = None, company_email = None, company_website = None,
       company_bank_name = None, company_bank_account = None, company_ifsc_code = None \<rparr>"

definition example_customer :: "string \<Rightarrow> string option \<Rightarrow> Customer" where
  "example_customer st g =
     \<lparr> customer_name = ''Buyer Ltd'', customer_address = ''2 Side Road'',
       customer_city = ''Town'', customer_state = st, customer_pincode = ''110001'',
       customer_country = ''India'', customer_gstin = g, customer_phone = None,
       customer_email = None \<rparr>"

definition example_invoice :: "Company \<Rightarrow> Customer \<Rightarrow> InvoiceItem list \<Rightarrow> Invoice" where
  "example_invoice co cu its =
     \<lparr> company = co, customer = cu, items = its, invoice_number = ''INV-1'',
       invoice_date = (2024, 1, 1), due_date = None, place_of_supply = customer_state cu,
       reverse_charge = False, invoice_notes = [], terms_and_conditions = [] \<rparr>"

definition example_item :: "decimal \<Rightarrow> decimal \<Rightarrow> decimal \<Rightarrow> InvoiceItem" where
  "example_item q p r =
     \<lparr> description = ''Item'', hsn_code = ''9999'', quantity = q, unit_price = p,
       unit = ''Nos'', gst_rate = r, discount_percentage = 0, discount_amount = 0 \<rparr>"

section \<open>Facts about rounding\<close>

lemma quantize_of_int: "quantize (of_int k / 100) = of_int k / 100"
proof (cases "0 \<le> k")
  case True
  then have "(0::rat) \<le> of_int k / 100" by simp
  moreover have "\<lfloor>(of_int k :: rat) + 1 / 2\<rfloor> = k" by linarith
  ultimately show ?thesis by (simp add: quantize_def)
next
  case False
  then have "\<not> (0::rat) \<le> of_int k / 100" by simp
  moreover have "\<lfloor>- (of_int k :: rat) + 1 / 2\<rfloor> = - k" by linarith
  ultimately show ?thesis by (simp add: quantize_def)
qed

lemma quantize_cents: "\<exists>k. quantize x = of_int k / 100"
proof (cases "0 \<le> x")
  case True
  then show ?thesis by (auto simp: quantize_def)
next
  case False
  then have "quantize x = of_int (- \<lfloor>- x * 100 + 1 / 2\<rfloor>) / 100"
    by (simp add: quantize_def)
  then show ?thesis by blast
qed

lemma quantize_idem: "quantize (quantize x) = quantize x"
proof -
  obtain k where "quantize x = of_int k / 100" using quantize_cents by blast
  then show ?thesis by (simp only: quantize_of_int)
qed

lemma quantize_zero: "quantize 0 = 0"
proof -
  have "\<lfloor>1 / 2 :: rat\<rfloor> = 0" by linarith
  then show ?thesis by (simp add: quantize_def)
qed

lemma quantize_error: "\<bar>quantize x - x\<bar> \<le> 1 / 200"
proof (cases "0 \<le> x")
  case True
  define k where "k = \<lfloor>x * 100 + 1 / 2\<rfloor>"
  have "of_int k \<le> x * 100 + 1 / 2" and "x * 100 + 1 / 2 < of_int k + 1"
    unfolding k_def by linarith+
  moreover have "quantize x = of_int k / 100"
    using True by (simp add: quantize_def k_def)
  ultimately show ?thesis by linarith
next
  case False
  define k where "k = \<lfloor>- x * 100 + 1 / 2\<rfloor>"
  have "of_int k \<le> - x * 100 + 1 / 2" and "- x * 100 + 1 / 2 < of_int k + 1"
    unfolding k_def by linarith+
  moreover have "quantize x = - (of_int k / 100)"
    using False by (simp add: quantize_def k_def)
  ultimately show ?thesis by linarith
qed


lemma quantize_add: "quantize (quantize x + quantize y) = quantize x + quantize y"
proof -
  obtain a b where "quantize x = of_int a / 100" "quantize y = of_int b / 100"
    using quantize_cents by blast
  then have "quantize x + quantize y = of_int (a + b) / 100"
    by (simp add: add_divide_distrib)
  then show ?thesis by (simp only: quantize_of_int)
qed

lemma quantize_diff: "quantize (quantize x - quantize y) = quantize x - quantize y"
proof -
  obtain a b where "quantize x = of_int a / 100" "quantize y = of_int b / 100"
    using quantize_cents by blast
  then have "quantize x - quantize y = of_int (a - b) / 100"
    by (simp add: diff_divide_distrib)
  then show ?thesis by (simp only: quantize_of_int)
qed


lemma floor_rat_numeral: "\<lfloor>numeral a / numeral b :: rat\<rfloor> = numeral a div numeral b"
  using floor_divide_of_int_eq [of "numeral a" "numeral b", where ?'a = rat] by simp

lemma floor_rat_one: "\<lfloor>1 / numeral b :: rat\<rfloor> = 1 div numeral b"
  using floor_divide_of_int_eq [of 1 "numeral b", where ?'a = rat] by simp

lemmas quantize_eval = quantize_def floor_rat_numeral floor_rat_one

text \<open>Rounding the two halves separately moves their sum at most one unit away from
  the rounded whole.\<close>

lemma quantize_halves: "\<bar>quantize (x / 2) + quantize (x / 2) - quantize x\<bar> \<le> 1 / 100"
proof -
  obtain a b where a: "quantize (x / 2) = of_int a / 100" and b: "quantize x = of_int b / 100"
    using quantize_cents by blast
  have "\<bar>quantize (x / 2) - x / 2\<bar> \<le> 1 / 200" "\<bar>quantize x - x\<bar> \<le> 1 / 200"
    using quantize_error by blast+
  then have "\<bar>2 * (of_int a :: rat) - of_int b\<bar> \<le> 3 / 2"
    unfolding a b by linarith
  then have "\<bar>(of_int (2 * a - b) :: rat)\<bar> \<le> 3 / 2" by simp
  then have "\<bar>2 * a - b\<bar> \<le> 1" by linarith
  then have "\<bar>(of_int (2 * a - b) :: rat)\<bar> \<le> 1" by linarith
  then have "\<bar>2 * (of_int a :: rat) - of_int b\<bar> \<le> 1" by simp
  then show ?thesis unfolding a b by linarith
qed

section \<open>The tax split\<close>









section \<open>Line items\<close>

lemma quantize_fixed_add: "quantize x = x \<Longrightarrow> quantize y = y \<Longrightarrow> quantize (x + y) = x + y"
  using quantize_add [of x y] by simp

lemma quantize_sum_list: "(\<forall>x \<in> set xs. quantize x = x) \<Longrightarrow> quantize (sum_list xs) = sum_list xs"
proof (induction xs)
  case Nil
  show ?case by (simp add: quantize_zero)
next
  case (Cons a xs)
  then have "quantize a = a" "quantize (sum_list xs) = sum_list xs" by simp_all
  then show ?case using quantize_fixed_add by simp
qed

lemma total_tax_amount_eq: "total_tax_amount it = cgst_amount it + sgst_amount it"
  unfolding total_tax_amount_def cgst_amount_def sgst_amount_def Let_def
  by (rule quantize_add)

lemma total_amount_eq: "total_amount it = taxable_amount it + cgst_amount it + sgst_amount it"
proof -
  have "quantize (taxable_amount it + total_tax_amount it) = taxable_amount it + total_tax_amount it"
    unfolding taxable_amount_def total_tax_amount_def by (rule quantize_add)
  then show ?thesis by (simp add: total_amount_def total_tax_amount_eq)
qed

lemma taxable_amount_eq: "taxable_amount it = gross_amount it - total_discount it"
  unfolding taxable_amount_def gross_amount_def total_discount_def Let_def
  by (rule quantize_diff)

text \<open>
  Claim C2.  The line item with quantity 1, unit price 65000, discount 5 percent, no fixed
  discount and rate 18 percent is constructed, and its gross amount is 65000.00, its total
  discount 3250.00, its taxable amount 61750.00, its CGST and SGST amounts 5557.50 each
  and its total amount 72865.00.
\<close>

theorem laptop_line_item:
  "\<exists>it. InvoiceItem_init ''Laptop - Dell Inspiron 15'' ''8471'' 1 65000 ''Nos'' 18 5 0 = Inr it
      \<and> gross_amount it = 65000
      \<and> total_discount it = 3250
      \<and> taxable_amount it = 61750
      \<and> cgst_amount it = 11115 / 2
      \<and> sgst_amount it = 11115 / 2
      \<and> total_amount it = 72865"
proof -
  define it where "it = \<lparr> description = ''Laptop - Dell Inspiron 15'', hsn_code = ''8471'',
     quantity = 1, unit_price = 65000, unit = ''Nos'', gst_rate = 18,
     discount_percentage = 5, discount_amount = 0 \<rparr>"
  have init: "InvoiceItem_init ''Laptop - Dell Inspiron 15'' ''8471'' 1 65000 ''Nos'' 18 5 0 = Inr it"
    by (simp add: InvoiceItem_init_def it_def)
  have f: "quantity it = 1" "unit_price it = 65000" "gst_rate it = 18"
    "discount_percentage it = 5" "discount_amount it = 0"
    by (simp_all add: it_def)
  have g: "gross_amount it = 65000"
    by (simp add: gross_amount_def f quantize_eval)
  have d: "total_discount it = 3250"
    by (simp add: total_discount_def Let_def g f quantize_eval)
  have t: "taxable_amount it = 61750"
    by (simp add: taxable_amount_def g d quantize_eval)
  have c: "cgst_amount it = 11115 / 2"
    by (simp add: cgst_amount_def Let_def t f quantize_eval)
  have s: "sgst_amount it = 11115 / 2"
    by (simp add: sgst_amount_def Let_def t f quantize_eval)
  have "total_amount it = 72865"
    by (simp add: total_amount_eq t c s)
  with init g d t c s show ?thesis by blast
qed

text \<open>
  Claim C4, as amended.  Constructing a line item raises (a \<^verbatim>\<open>ValueError\<close>) exactly
  when the quantity is not positive, the unit price is negative or the rate lies outside
  \<open>[0, 100]\<close>.  The discounts are not checked: every other item is constructed with its
  fields as given, its taxable amount is its gross amount less its total discount, and
  so is negative when the total discount exceeds the gross amount.
\<close>

theorem item_construction:
  "((\<exists>m. InvoiceItem_init d h q p u r dp da = Inl (ValueError m))
       \<longleftrightarrow> (q \<le> 0 \<or> p < 0 \<or> r < 0 \<or> 100 < r))
   \<and> (\<not> (q \<le> 0 \<or> p < 0 \<or> r < 0 \<or> 100 < r) \<longrightarrow>
        (\<exists>it. InvoiceItem_init d h q p u r dp da = Inr it
           \<and> quantity it = q \<and> unit_price it = p \<and> gst_rate it = r
           \<and> discount_percentage it = dp \<and> discount_amount it = da
           \<and> taxable_amount it = gross_amount it - total_discount it
           \<and> (gross_amount it < total_discount it \<longrightarrow> taxable_amount it < 0)))"
proof (intro conjI impI)
  show "(\<exists>m. InvoiceItem_init d h q p u r dp da = Inl (ValueError m))
       \<longleftrightarrow> (q \<le> 0 \<or> p < 0 \<or> r < 0 \<or> 100 < r)"
    by (auto simp: InvoiceItem_init_def)
next
  assume ok: "\<not> (q \<le> 0 \<or> p < 0 \<or> r < 0 \<or> 100 < r)"
  define it where "it = \<lparr> description = d, hsn_code = h, quantity = q, unit_price = p,
     unit = u, gst_rate = r, discount_percentage = dp, discount_amount = da \<rparr>"
  have init: "InvoiceItem_init d h q p u r dp da = Inr it"
    using ok by (simp add: InvoiceItem_init_def it_def)
  have f: "quantity it = q \<and> unit_price it = p \<and> gst_rate it = r
           \<and> discount_percentage it = dp \<and> discount_amount it = da"
    by (simp add: it_def)
  have "taxable_amount it = gross_amount it - total_discount it"
    by (rule taxable_amount_eq)
  then have "taxable_amount it = gross_amount it - total_discount it
           \<and> (gross_amount it < total_discount it \<longrightarrow> taxable_amount it < 0)"
    by simp
  with init f show "\<exists>it. InvoiceItem_init d h q p u r dp da = Inr it
           \<and> quantity it = q \<and> unit_price it = p \<and> gst_rate it = r
           \<and> discount_percentage it = dp \<and> discount_amount it = da
           \<and> taxable_amount it = gross_amount it - total_discount it
           \<and> (gross_amount it < total_discount it \<longrightarrow> taxable_amount it < 0)"
    by blast
qed

text \<open>Witness for C4: a rejected quantity of 0, and an item whose fixed discount of 150
  exceeds its gross amount of 100.\<close>

theorem item_construction_witness:
  "(\<exists>m. InvoiceItem_init ''Widget'' ''9999'' 0 100 ''Nos'' 18 0 0 = Inl (ValueError m))
   \<and> (\<exists>it. InvoiceItem_init ''Widget'' ''9999'' 1 100 ''Nos'' 18 0 150 = Inr it
          \<and> gross_amount it < total_discount it \<and> taxable_amount it < 0)"
proof -
  have "\<not> ((1::rat) \<le> 0 \<or> (100::rat) < 0 \<or> (18::rat) < 0 \<or> (100::rat) < 18)" by simp
  with item_construction [of "''Widget''" "''9999''" 1 100 "''Nos''" 18 0 150]
  obtain it where it: "InvoiceItem_init ''Widget'' ''9999'' 1 100 ''Nos'' 18 0 150 = Inr it"
    "quantity it = 1" "unit_price it = 100" "discount_percentage it = 0"
    "discount_amount it = 150"
    "gross_amount it < total_discount it \<longrightarrow> taxable_amount it < 0"
    by blast
  have g: "gross_amount it = 100"
    by (simp add: gross_amount_def it quantize_eval)
  have d: "total_discount it = 150"
    by (simp add: total_discount_def Let_def g it quantize_eval)
  from g d it have "gross_amount it < total_discount it \<and> taxable_amount it < 0" by simp
  with it(1) have "\<exists>it. InvoiceItem_init ''Widget'' ''9999'' 1 100 ''Nos'' 18 0 150 = Inr it
          \<and> gross_amount it < total_discount it \<and> taxable_amount it < 0" by blast
  moreover have "\<exists>m. InvoiceItem_init ''Widget'' ''9999'' 0 100 ''Nos'' 18 0 0 = Inl (ValueError m)"
    using item_construction [of "''Widget''" "''9999''" 0 100 "''Nos''" 18 0 0] by simp
  ultimately show ?thesis by blast
qed

text \<open>
  Counterexample to C4 as stated: quantity 1, unit price 100 and a fixed discount of 150
  construct an item with gross amount 100.00, total discount 150.00 and taxable amount
  -50.00.
\<close>

theorem discount_unchecked_counterexample:
  "map_sum id gross_amount (InvoiceItem_init ''Widget'' ''9999'' 1 100 ''Nos'' 18 0 150) = Inr 100
   \<and> map_sum id total_discount (InvoiceItem_init ''Widget'' ''9999'' 1 100 ''Nos'' 18 0 150) = Inr 150
   \<and> map_sum id taxable_amount (InvoiceItem_init ''Widget'' ''9999'' 1 100 ''Nos'' 18 0 150) = Inr (- 50)"
proof -
  define it where "it = \<lparr> description = ''Widget'', hsn_code = ''9999'',
     quantity = 1, unit_price = 100, unit = ''Nos'', gst_rate = 18,
     discount_percentage = 0, discount_amount = 150 \<rparr>"
  have init: "InvoiceItem_init ''Widget'' ''9999'' 1 100 ''Nos'' 18 0 150 = Inr it"
    by (simp add: InvoiceItem_init_def it_def)
  have f: "quantity it = 1" "unit_price it = 100" "discount_percentage it = 0"
    "discount_amount it = 150"
    by (simp_all add: it_def)
  have g: "gross_amount it = 100"
    by (simp add: gross_amount_def f quantize_eval)
  have d: "total_discount it = 150"
    by (simp add: total_discount_def Let_def g f quantize_eval)
  have t: "taxable_amount it = - 50"
    by (simp add: taxable_amount_eq g d)
  show ?thesis unfolding init by (simp add: g d t)
qed

section \<open>Invoice totals\<close>

lemma foldl_py_add: "foldl py_add (PyDecimal a) (map PyDecimal xs) = PyDecimal (a + sum_list xs)"
  by (induction xs arbitrary: a) (simp_all add: add.assoc)

lemma py_sum_Nil: "py_sum [] = PyInt 0"
  by (simp add: py_sum_def)

lemma py_sum_Cons: "py_sum (x # xs) = PyDecimal (x + sum_list xs)"
  by (simp add: py_sum_def foldl_py_add)

lemma py_sum_nonempty: "xs \<noteq> [] \<Longrightarrow> py_sum xs = PyDecimal (sum_list xs)"
  by (cases xs) (simp_all add: py_sum_Cons)

lemma igst_split_gap: "\<bar>igst_amount it - (cgst_amount it + sgst_amount it)\<bar> \<le> 1 / 100"
proof -
  have "taxable_amount it * (gst_rate it / 2) / 100 = taxable_amount it * gst_rate it / 100 / 2"
    by simp
  then show ?thesis
    unfolding igst_amount_def cgst_amount_def sgst_amount_def Let_def
    using quantize_halves [of "taxable_amount it * gst_rate it / 100"]
    by (simp add: abs_minus_commute)
qed

lemma sum_list_abs_bound:
  "(\<forall>x \<in> set xs. \<bar>f x\<bar> \<le> (c::rat)) \<Longrightarrow> \<bar>sum_list (map f xs)\<bar> \<le> of_nat (length xs) * c"
proof (induction xs)
  case Nil
  show ?case by simp
next
  case (Cons a xs)
  then have "\<bar>f a\<bar> \<le> c" "\<bar>sum_list (map f xs)\<bar> \<le> of_nat (length xs) * c" by simp_all
  then show ?case by (simp add: algebra_simps)
qed

lemma item_totals_gap:
  "sum_list (map taxable_amount xs) + sum_list (map igst_amount xs)
     - sum_list (map total_amount xs)
   = sum_list (map (\<lambda>it. igst_amount it - (cgst_amount it + sgst_amount it)) xs)"
  by (induction xs) (simp_all add: total_amount_eq)

lemma interstate_total:
  assumes "is_interstate invoice" "items invoice \<noteq> []"
  shows "total_invoice_amount invoice =
     Inr (sum_list (map taxable_amount (items invoice)) + sum_list (map igst_amount (items invoice)))"
proof -
  have t: "quantize (sum_list (map taxable_amount (items invoice))) = sum_list (map taxable_amount (items invoice))"
    by (rule quantize_sum_list) (auto simp: taxable_amount_def quantize_idem)
  have i: "quantize (sum_list (map igst_amount (items invoice))) = sum_list (map igst_amount (items invoice))"
    by (rule quantize_sum_list) (auto simp: igst_amount_def quantize_idem)
  show ?thesis
    using assms
    by (simp add: total_invoice_amount_def total_taxable_amount_def invoice_total_tax_amount_def
        total_igst_amount_def py_sum_nonempty quantize_fixed_add [OF t i])
qed

text \<open>
  Claim C10.  Whatever the invoice, a line item's total tax is its CGST amount plus its
  SGST amount and its total amount is its taxable amount plus those two; the IGST amount
  is no part of either.  On an interstate invoice with at least one item the invoice total
  is the sum of the taxable amounts plus the sum of the IGST amounts, and it differs from
  the sum of the items' total amounts by at most one rounding unit (0.01) per item.  The
  two do differ: an interstate invoice with the one item of taxable amount 0.10 at
  5 percent totals 0.11, while the item's own total amount is 0.10.
\<close>

theorem line_item_totals:
  "total_tax_amount it = cgst_amount it + sgst_amount it
   \<and> total_amount it = taxable_amount it + cgst_amount it + sgst_amount it
   \<and> (is_interstate invoice \<and> items invoice \<noteq> [] \<longrightarrow>
        (\<exists>T. total_invoice_amount invoice = Inr T
           \<and> T = sum_list (map taxable_amount (items invoice))
                 + sum_list (map igst_amount (items invoice))
           \<and> \<bar>T - sum_list (map total_amount (items invoice))\<bar>
               \<le> of_nat (length (items invoice)) / 100))
   \<and> is_interstate (example_invoice (example_company ''Maharashtra'' None)
                       (example_customer ''Delhi'' None) [example_item 1 (1 / 10) 5])
   \<and> total_invoice_amount (example_invoice (example_company ''Maharashtra'' None)
                       (example_customer ''Delhi'' None) [example_item 1 (1 / 10) 5])
       = Inr (11 / 100)
   \<and> total_amount (example_item 1 (1 / 10) 5) = 1 / 10"
proof (intro conjI impI)
  show "total_tax_amount it = cgst_amount it + sgst_amount it"
    by (rule total_tax_amount_eq)
  show "total_amount it = taxable_amount it + cgst_amount it + sgst_amount it"
    by (rule total_amount_eq)
next
  assume h: "is_interstate invoice \<and> items invoice \<noteq> []"
  let ?its = "items invoice"
  let ?T = "sum_list (map taxable_amount ?its) + sum_list (map igst_amount ?its)"
  have tot: "total_invoice_amount invoice = Inr ?T"
    using h by (simp add: interstate_total)
  have "?T - sum_list (map total_amount ?its)
      = sum_list (map (\<lambda>it. igst_amount it - (cgst_amount it + sgst_amount it)) ?its)"
    by (rule item_totals_gap)
  moreover have "\<bar>sum_list (map (\<lambda>it. igst_amount it - (cgst_amount it + sgst_amount it)) ?its)\<bar>
      \<le> of_nat (length ?its) * (1 / 100)"
    by (rule sum_list_abs_bound) (intro ballI igst_split_gap)
  ultimately have "\<bar>?T - sum_list (map total_amount ?its)\<bar> \<le> of_nat (length ?its) / 100"
    by simp
  with tot show "\<exists>T. total_invoice_amount invoice = Inr T
           \<and> T = sum_list (map taxable_amount (items invoice))
                 + sum_list (map igst_amount (items invoice))
           \<and> \<bar>T - sum_list (map total_amount (items invoice))\<bar>
               \<le> of_nat (length (items invoice)) / 100"
    by blast
next
  let ?inv = "example_invoice (example_company ''Maharashtra'' None)
                       (example_customer ''Delhi'' None) [example_item 1 (1 / 10) 5]"
  show inter: "is_interstate ?inv"
    by (simp add: is_interstate_def example_invoice_def example_company_def
        example_customer_def truthy_def Let_def dict_get_def state_mapping_def
        upper_def strip_def char_upper_def py_isspace_def)
  have f: "quantity (example_item 1 (1 / 10) 5) = 1" "unit_price (example_item 1 (1 / 10) 5) = 1 / 10"
    "gst_rate (example_item 1 (1 / 10) 5) = 5" "discount_percentage (example_item 1 (1 / 10) 5) = 0"
    "discount_amount (example_item 1 (1 / 10) 5) = 0"
    by (simp_all add: example_item_def)
  have g: "gross_amount (example_item 1 (1 / 10) 5) = 1 / 10"
    by (simp add: gross_amount_def f quantize_eval)
  have d: "total_discount (example_item 1 (1 / 10) 5) = 0"
    by (simp add: total_discount_def Let_def g f quantize_eval)
  have t: "taxable_amount (example_item 1 (1 / 10) 5) = 1 / 10"
    by (simp add: taxable_amount_eq g d)
  have c: "cgst_amount (example_item 1 (1 / 10) 5) = 0"
    by (simp add: cgst_amount_def Let_def t f quantize_eval)
  have s: "sgst_amount (example_item 1 (1 / 10) 5) = 0"
    by (simp add: sgst_amount_def Let_def t f quantize_eval)
  have i: "igst_amount (example_item 1 (1 / 10) 5) = 1 / 100"
    by (simp add: igst_amount_def t f quantize_eval)
  have its: "items ?inv = [example_item 1 (1 / 10) 5]"
    by (simp add: example_invoice_def)
  show "total_invoice_amount ?inv = Inr (11 / 100)"
    using interstate_total [OF inter] by (simp add: its t i)
  show "total_amount (example_item 1 (1 / 10) 5) = 1 / 10"
    by (simp add: total_amount_eq t c s)
qed

text \<open>Witness for C10: the interstate invoice with that one item.\<close>

theorem line_item_totals_witness:
  "\<exists>T. total_invoice_amount (example_invoice (example_company ''Maharashtra'' None)
                       (example_customer ''Delhi'' None) [example_item 1 (1 / 10) 5]) = Inr T
      \<and> \<bar>T - total_amount (example_item 1 (1 / 10) 5)\<bar> \<le> 1 / 100"
proof -
  let ?inv = "example_invoice (example_company ''Maharashtra'' None)
                       (example_customer ''Delhi'' None) [example_item 1 (1 / 10) 5]"
  have its: "items ?inv = [example_item 1 (1 / 10) 5]"
    by (simp add: example_invoice_def)
  note inst = line_item_totals [of "example_item 1 (1 / 10) 5" ?inv]
  from inst have "is_interstate ?inv" by blast
  moreover from inst have "is_interstate ?inv \<and> items ?inv \<noteq> [] \<longrightarrow>
        (\<exists>T. total_invoice_amount ?inv = Inr T
           \<and> T = sum_list (map taxable_amount (items ?inv))
                 + sum_list (map igst_amount (items ?inv))
           \<and> \<bar>T - sum_list (map total_amount (items ?inv))\<bar>
               \<le> of_nat (length (items ?inv)) / 100)" by blast
  ultimately show ?thesis by (simp add: its)
qed

section \<open>Interstate classification\<close>

lemma is_gst_registered_truthy: "is_gst_registered g \<Longrightarrow> truthy g"
  by (auto simp: is_gst_registered_def truthy_def split: option.splits)

lemma is_interstate_gstin:
  "truthy (company_gstin (company invoice)) \<Longrightarrow> truthy (customer_gstin (customer invoice)) \<Longrightarrow>
   is_interstate invoice \<longleftrightarrow>
     take 2 (the (company_gstin (company invoice))) \<noteq> take 2 (the (customer_gstin (customer invoice)))"
  by (auto simp: is_interstate_def truthy_def Let_def split: option.splits)

lemma is_interstate_state:
  "\<not> (truthy (company_gstin (company invoice)) \<and> truthy (customer_gstin (customer invoice))) \<Longrightarrow>
   is_interstate invoice \<longleftrightarrow>
     normalize_state (company_state (company invoice))
       \<noteq> normalize_state (customer_state (customer invoice))"
  unfolding is_interstate_def normalize_state_def Let_def by auto

lemmas string_eval = upper_def strip_def char_upper_def py_isspace_def dict_get_def
  state_mapping_def normalize_state_def

lemmas example_eval = example_invoice_def example_company_def example_customer_def

text \<open>
  Claim C1, as amended.  If both seller and buyer have a tax identifier that is present
  and not empty, the invoice is interstate exactly when the first two characters of the
  two identifiers differ; this covers the case that both have length 15.  Otherwise, that
  is when an identifier is missing or empty, the invoice is interstate exactly when the
  normal forms of the two state names differ.  Seller 27AABCS1234C1ZS with buyer
  07AABCC1234D1ZF is interstate.
\<close>

theorem is_interstate_classification:
  "(truthy (company_gstin (company invoice)) \<and> truthy (customer_gstin (customer invoice)) \<longrightarrow>
      (is_interstate invoice \<longleftrightarrow>
         take 2 (the (company_gstin (company invoice)))
           \<noteq> take 2 (the (customer_gstin (customer invoice)))))
   \<and> (is_gst_registered (company_gstin (company invoice))
        \<and> is_gst_registered (customer_gstin (customer invoice)) \<longrightarrow>
      (is_interstate invoice \<longleftrightarrow>
         take 2 (the (company_gstin (company invoice)))
           \<noteq> take 2 (the (customer_gstin (customer invoice)))))
   \<and> (\<not> (truthy (company_gstin (company invoice)) \<and> truthy (customer_gstin (customer invoice))) \<longrightarrow>
      (is_interstate invoice \<longleftrightarrow>
         normalize_state (company_state (company invoice))
           \<noteq> normalize_state (customer_state (customer invoice))))
   \<and> (company_gstin (company invoice) = Some ''27AABCS1234C1ZS''
        \<and> customer_gstin (customer invoice) = Some ''07AABCC1234D1ZF'' \<longrightarrow>
      is_interstate invoice)"
proof (intro conjI impI)
  assume "truthy (company_gstin (company invoice)) \<and> truthy (customer_gstin (customer invoice))"
  then show "is_interstate invoice \<longleftrightarrow>
         take 2 (the (company_gstin (company invoice)))
           \<noteq> take 2 (the (customer_gstin (customer invoice)))"
    by (simp add: is_interstate_gstin)
next
  assume "is_gst_registered (company_gstin (company invoice))
        \<and> is_gst_registered (customer_gstin (customer invoice))"
  then show "is_interstate invoice \<longleftrightarrow>
         take 2 (the (company_gstin (company invoice)))
           \<noteq> take 2 (the (customer_gstin (customer invoice)))"
    by (simp add: is_interstate_gstin is_gst_registered_truthy)
next
  assume "\<not> (truthy (company_gstin (company invoice)) \<and> truthy (customer_gstin (customer invoice)))"
  then show "is_interstate invoice \<longleftrightarrow>
         normalize_state (company_state (company invoice))
           \<noteq> normalize_state (customer_state (customer invoice))"
    by (rule is_interstate_state)
next
  assume "company_gstin (company invoice) = Some ''27AABCS1234C1ZS''
        \<and> customer_gstin (customer invoice) = Some ''07AABCC1234D1ZF''"
  then show "is_interstate invoice"
    by (simp add: is_interstate_def truthy_def)
qed

text \<open>
  Witness for C1: the two identifiers of the claim; two identifiers of length 15 with the
  same prefix; no identifiers and two spellings of one state; no identifiers and two
  states.
\<close>

theorem is_interstate_classification_witness:
  "is_interstate (example_invoice (example_company ''Maharashtra'' (Some ''27AABCS1234C1ZS''))
                    (example_customer ''Delhi'' (Some ''07AABCC1234D1ZF'')) [])
   \<and> \<not> is_interstate (example_invoice (example_company ''Maharashtra'' (Some ''27AABCS1234C1ZS''))
                    (example_customer ''Delhi'' (Some ''27AABCC1234D1ZF'')) [])
   \<and> \<not> is_interstate (example_invoice (example_company ''Orissa'' None)
                    (example_customer '' odisha '' None) [])
   \<and> is_interstate (example_invoice (example_company ''Maharashtra'' None)
                    (example_customer ''Delhi'' None) [])"
proof (intro conjI)
  let ?a = "example_invoice (example_company ''Maharashtra'' (Some ''27AABCS1234C1ZS''))
                    (example_customer ''Delhi'' (Some ''07AABCC1234D1ZF'')) []"
  show "is_interstate ?a"
    using is_interstate_classification [of ?a] by (simp add: example_eval)
next
  let ?b = "example_invoice (example_company ''Maharashtra'' (Some ''27AABCS1234C1ZS''))
                    (example_customer ''Delhi'' (Some ''27AABCC1234D1ZF'')) []"
  show "\<not> is_interstate ?b"
    using is_interstate_classification [of ?b]
    by (simp add: example_eval is_gst_registered_def truthy_def)
next
  let ?c = "example_invoice (example_company ''Orissa'' None)
                    (example_customer '' odisha '' None) []"
  have "normalize_state ''Orissa'' = ''ODISHA''" "normalize_state '' odisha '' = ''ODISHA''"
    by (simp_all add: string_eval)
  then show "\<not> is_interstate ?c"
    using is_interstate_classification [of ?c]
    by (simp add: example_eval is_gst_registered_def truthy_def)
next
  let ?d = "example_invoice (example_company ''Maharashtra'' None)
                    (example_customer ''Delhi'' None) []"
  have "normalize_state ''Maharashtra'' = ''MAHARASHTRA''" "normalize_state ''Delhi'' = ''DELHI''"
    by (simp_all add: string_eval)
  then show "is_interstate ?d"
    using is_interstate_classification [of ?d]
    by (simp add: example_eval is_gst_registered_def truthy_def)
qed

text \<open>
  Counterexample to C1 as stated: seller identifier 27AAB and buyer identifier 07AAB are
  not of length 15 and both parties are in Delhi, so the claim compares the state names and
  classifies the invoice as intrastate; the code compares the prefixes 27 and 07 and
  classifies it as interstate.
\<close>

theorem is_interstate_counterexample:
  "is_interstate (example_invoice (example_company ''Delhi'' (Some ''27AAB''))
                    (example_customer ''Delhi'' (Some ''07AAB'')) [])
   \<and> \<not> is_gst_registered (company_gstin (company
          (example_invoice (example_company ''Delhi'' (Some ''27AAB''))
                    (example_customer ''Delhi'' (Some ''07AAB'')) [])))
   \<and> \<not> is_gst_registered (customer_gstin (customer
          (example_invoice (example_company ''Delhi'' (Some ''27AAB''))
                    (example_customer ''Delhi'' (Some ''07AAB'')) [])))
   \<and> normalize_state (company_state (company
          (example_invoice (example_company ''Delhi'' (Some ''27AAB''))
                    (example_customer ''Delhi'' (Some ''07AAB'')) [])))
     = normalize_state (customer_state (customer
          (example_invoice (example_company ''Delhi'' (Some ''27AAB''))
                    (example_customer ''Delhi'' (Some ''07AAB'')) [])))"
  by (simp add: example_eval is_interstate_def truthy_def is_gst_registered_def)

section \<open>Validation of a tax identifier\<close>








section \<open>Amount in words\<close>















section \<open>Suggestion of a classification code\<close>

















end
